theory Spec2Isabelle
  imports Main "HOL-Library.Sublist"
begin

section \<open>Strings\<close>

text \<open>
  Python \<open>str\<close> values are modelled as \<open>string\<close>.  Only the string methods that
  \<^verbatim>\<open>mapper.py\<close> calls are embedded: \<^verbatim>\<open>startswith\<close>, \<^verbatim>\<open>endswith\<close>,
  \<^verbatim>\<open>split\<close> (with a one-character separator), \<^verbatim>\<open>join\<close>, \<^verbatim>\<open>replace\<close>
  and \<^verbatim>\<open>rfind\<close> (used by \<^verbatim>\<open>Path.stem\<close>).
\<close>

definition startswith :: "string \<Rightarrow> string \<Rightarrow> bool" where
  "startswith s p = prefix p s"

definition endswith :: "string \<Rightarrow> string \<Rightarrow> bool" where
  "endswith s p = suffix p s"

text \<open>\<^verbatim>\<open>s.split(sep)\<close>: the result is never empty, so \<^verbatim>\<open>s.split(sep)[0]\<close> never raises.\<close>

primrec str_split :: "char \<Rightarrow> string \<Rightarrow> string list" where
  "str_split sep [] = [[]]"
| "str_split sep (c # cs) =
     (if c = sep then [] # str_split sep cs
      else (c # hd (str_split sep cs)) # tl (str_split sep cs))"

text \<open>\<^verbatim>\<open>sep.join(xs)\<close>.\<close>

fun str_join :: "string \<Rightarrow> string list \<Rightarrow> string" where
  "str_join sep [] = []"
| "str_join sep [x] = x"
| "str_join sep (x # y # ys) = x @ sep @ str_join sep (y # ys)"

text \<open>
  \<^verbatim>\<open>s.replace(old, new)\<close> for a non-empty \<open>old\<close>: every non-overlapping occurrence,
  scanning from the left, is replaced.  (The program only calls it with \<open>old = ''.py''\<close>.)
\<close>

function str_replace :: "string \<Rightarrow> string \<Rightarrow> string \<Rightarrow> string" where
  "str_replace old new [] = []"
| "str_replace old new (c # cs) =
     (if old \<noteq> [] \<and> prefix old (c # cs)
      then new @ str_replace old new (drop (length old) (c # cs))
      else c # str_replace old new cs)"
  by pat_completeness auto
termination
  by (relation "measure (\<lambda>(old, new, s). length s)") auto

text \<open>\<^verbatim>\<open>s.rfind(c)\<close>: the highest index of \<open>c\<close> in \<open>s\<close>, or \<open>-1\<close>.\<close>

definition rfind :: "string \<Rightarrow> char \<Rightarrow> int" where
  "rfind s c =
     (if c \<in> set s then int (length s) - 1 - int (length (takeWhile (\<lambda>x. x \<noteq> c) (rev s)))
      else - 1)"

section \<open>Paths\<close>

text \<open>
  A \<^verbatim>\<open>pathlib.Path\<close> (POSIX flavour) is modelled by its \<^verbatim>\<open>parts\<close> tuple:
  \<^verbatim>\<open>Path("src/pkg/foo.py").parts == ("src", "pkg", "foo.py")\<close>,
  \<^verbatim>\<open>Path("/a/b").parts == ("/", "a", "b")\<close> and \<^verbatim>\<open>Path(".").parts == ()\<close>.
  Two paths are equal exactly when their parts are.
\<close>

type_synonym path = "string list"

text \<open>\<^verbatim>\<open>p.is_absolute()\<close>: the first part is the root, \<^verbatim>\<open>/\<close> or (POSIX) \<^verbatim>\<open>//\<close>.\<close>

definition is_absolute :: "path \<Rightarrow> bool" where
  "is_absolute p = (p \<noteq> [] \<and> (hd p = ''/'' \<or> hd p = ''//''))"

text \<open>\<^verbatim>\<open>p.name\<close>: the last part, or the empty string for \<^verbatim>\<open>.\<close> and \<^verbatim>\<open>/\<close>.\<close>

definition path_name :: "path \<Rightarrow> string" where
  "path_name p = (if length p = (if is_absolute p then 1 else 0) then [] else last p)"

text \<open>
  \<^verbatim>\<open>p.stem\<close>, as \<^verbatim>\<open>pathlib\<close> defines it up to Python 3.12:
  \<^verbatim>\<open>i = name.rfind('.'); return name[:i] if 0 < i < len(name) - 1 else name\<close>.
\<close>

definition path_stem :: "path \<Rightarrow> string" where
  "path_stem p =
     (let name = path_name p; i = rfind name CHR ''.''
      in if 0 < i \<and> i < int (length name) - 1 then take (nat i) name else name)"

text \<open>
  \<^verbatim>\<open>p.relative_to(other)\<close>; the \<^verbatim>\<open>ValueError\<close> raised when \<open>p\<close> does not lie under
  \<open>other\<close> is the value \<open>None\<close>.  An absolute path is not relative to \<^verbatim>\<open>Path(".")\<close>.
\<close>

definition relative_to :: "path \<Rightarrow> path \<Rightarrow> path option" where
  "relative_to p other =
     (if (if other = [] then is_absolute p else \<not> prefix other p) then None
      else Some (drop (length other) p))"

text \<open>\<^verbatim>\<open>p / q\<close>.\<close>

definition joinpath :: "path \<Rightarrow> path \<Rightarrow> path" where
  "joinpath p q = (if is_absolute q then q else p @ q)"

section \<open>\<^verbatim>\<open>TestMapper.get_module_path\<close> and \<^verbatim>\<open>TestMapper._is_test_file\<close>\<close>

text \<open>
  The first argument of every method below is the field \<^verbatim>\<open>self.project_root\<close>.
  The result \<^verbatim>\<open>None\<close> of \<^verbatim>\<open>get_module_path\<close> (both the caught \<^verbatim>\<open>ValueError\<close> and the
  final \<^verbatim>\<open>return None\<close>) is \<open>None\<close>.
\<close>

definition get_module_path :: "path \<Rightarrow> path \<Rightarrow> string option" where
  "get_module_path project_root changed_file =
     (case relative_to changed_file project_root of
        None \<Rightarrow> None
      | Some rel_path \<Rightarrow>
          (let parts = (if rel_path \<noteq> [] \<and> hd rel_path = ''src'' then tl rel_path else rel_path)
           in if parts \<noteq> []
              then Some (str_join ''.''
                     (parts[length parts - 1 := str_replace ''.py'' '''' (last parts)]))
              else None))"

definition is_test_file :: "path \<Rightarrow> bool" where
  "is_test_file file_path =
     (let name = path_name file_path
      in startswith name ''test_'' \<or> endswith name ''_test.py'')"

section \<open>Syntax trees\<close>

text \<open>
  The part of a Python \<^verbatim>\<open>ast\<close> tree that \<^verbatim>\<open>extract_imports\<close> looks at.
  \<open>Import names\<close> is \<^verbatim>\<open>import a.b, c as d\<close>; \<open>ImportFrom module names level\<close> is
  \<^verbatim>\<open>from module import names\<close>, where \<open>module\<close> is \<open>None\<close> for \<^verbatim>\<open>from . import x\<close>
  and \<open>level\<close> counts the leading dots.  \<open>Module\<close> and \<open>FunctionDef\<close> carry their
  bodies, and \<open>Other\<close> is any other node that has statements below it (a class, a
  conditional, a loop, a \<^verbatim>\<open>try\<close> block) with those children.  Child nodes that are
  expressions are left out: no import statement occurs inside an expression.
\<close>

datatype import_alias = Alias (alias_name: string) (asname: "string option")

datatype node =
    Module "node list"
  | FunctionDef string "node list"
  | Import "import_alias list"
  | ImportFrom "string option" "import_alias list" nat
  | Other "node list"

fun iter_child_nodes :: "node \<Rightarrow> node list" where
  "iter_child_nodes (Module body) = body"
| "iter_child_nodes (FunctionDef f body) = body"
| "iter_child_nodes (Import names) = []"
| "iter_child_nodes (ImportFrom m names level) = []"
| "iter_child_nodes (Other children) = children"

text \<open>
  \<^verbatim>\<open>ast.walk\<close>: breadth first over a queue,
  \<^verbatim>\<open>node = todo.popleft(); todo.extend(iter_child_nodes(node)); yield node\<close>.
  \<^verbatim>\<open>ast.walk(tree)\<close> is \<open>walk [tree]\<close>.
\<close>

function walk :: "node list \<Rightarrow> node list" where
  "walk [] = []"
| "walk (n # todo) = n # walk (todo @ iter_child_nodes n)"
  by pat_completeness auto
termination
proof (relation "measure (size_list size)")
  show "wf (measure (size_list size))"
    by simp
next
  fix n :: node and todo :: "node list"
  show "(todo @ iter_child_nodes n, n # todo) \<in> measure (size_list size)"
    by (cases n) (simp_all add: size_list_append)
qed

section \<open>The file system\<close>

text \<open>
  What the program can observe of the file system.  A file system is a finite list of
  entries, a path with either a directory or a file; every ancestor of a listed path
  exists as a directory.  What opening, decoding and parsing a file gives is kept with
  the file: \<open>Undecodable\<close> content makes \<^verbatim>\<open>f.read()\<close> raise \<^verbatim>\<open>UnicodeDecodeError\<close>,
  \<open>Malformed\<close> content makes \<^verbatim>\<open>ast.parse\<close> raise \<^verbatim>\<open>SyntaxError\<close>, and
  \<open>Parsed tree\<close> content parses to \<open>tree\<close>.  \<^verbatim>\<open>ast.parse\<close> raises other exceptions
  too: \<open>TooDeep\<close> content (valid code nested beyond what the parser's stack takes, such
  as a chain of some thousand \<^verbatim>\<open>elif\<close> branches) makes it raise \<^verbatim>\<open>RecursionError\<close>,
  \<open>NulByte\<close> content (a NUL byte, on the Python versions that reject it so) makes it
  raise \<^verbatim>\<open>ValueError\<close>, and \<open>TooLarge\<close> content makes it raise \<^verbatim>\<open>MemoryError\<close>.
  Opening a path that is not listed raises \<^verbatim>\<open>IsADirectoryError\<close> when the path is a
  directory, \<^verbatim>\<open>NotADirectoryError\<close> when the path lies below a file, and
  \<^verbatim>\<open>FileNotFoundError\<close> otherwise.
\<close>

datatype source = Undecodable | Malformed | TooDeep | NulByte | TooLarge | Parsed node

datatype entry = Directory | File source

type_synonym filesystem = "(path \<times> entry) list"

datatype py_error =
    FileNotFoundError | IsADirectoryError | NotADirectoryError
  | UnicodeDecodeError | SyntaxError | RecursionError | ValueError | MemoryError

text \<open>\<^verbatim>\<open>p.exists()\<close>: the path is listed, or is an ancestor of a listed path.\<close>

definition path_exists :: "filesystem \<Rightarrow> path \<Rightarrow> bool" where
  "path_exists fs p = list_ex (\<lambda>q. prefix p q) (map fst fs)"

text \<open>A proper ancestor of the path is listed as a file.\<close>

definition below_file :: "filesystem \<Rightarrow> path \<Rightarrow> bool" where
  "below_file fs p =
     list_ex (\<lambda>(q, e). case e of Directory \<Rightarrow> False | File src \<Rightarrow> strict_prefix q p) fs"

text \<open>
  \<^verbatim>\<open>with open(file_path, 'r', encoding='utf-8') as f: tree = ast.parse(f.read(), ...)\<close>,
  with each exception as a value.
\<close>

definition parse_file :: "filesystem \<Rightarrow> path \<Rightarrow> py_error + node" where
  "parse_file fs file_path =
     (case map_of fs file_path of
        None \<Rightarrow>
          if below_file fs file_path then Inl NotADirectoryError
          else if path_exists fs file_path then Inl IsADirectoryError
          else Inl FileNotFoundError
      | Some Directory \<Rightarrow> Inl IsADirectoryError
      | Some (File Undecodable) \<Rightarrow> Inl UnicodeDecodeError
      | Some (File Malformed) \<Rightarrow> Inl SyntaxError
      | Some (File TooDeep) \<Rightarrow> Inl RecursionError
      | Some (File NulByte) \<Rightarrow> Inl ValueError
      | Some (File TooLarge) \<Rightarrow> Inl MemoryError
      | Some (File (Parsed tree)) \<Rightarrow> Inr tree)"

text \<open>
  \<^verbatim>\<open>dir.rglob(pattern)\<close> for a pattern \<^verbatim>\<open>pre*suf\<close>: every existing path strictly below
  \<open>dir\<close> whose last part matches.
\<close>

definition all_paths :: "filesystem \<Rightarrow> path list" where
  "all_paths fs = concat (map (\<lambda>(p, e). prefixes p) fs)"

definition fnmatch :: "string \<Rightarrow> string \<Rightarrow> string \<Rightarrow> bool" where
  "fnmatch name pre suf =
     (prefix pre name \<and> suffix suf name \<and> length pre + length suf \<le> length name)"

definition rglob :: "filesystem \<Rightarrow> path \<Rightarrow> string \<Rightarrow> string \<Rightarrow> path list" where
  "rglob fs dir pre suf =
     filter (\<lambda>q. strict_prefix dir q \<and> fnmatch (last q) pre suf) (all_paths fs)"

section \<open>\<^verbatim>\<open>TestMapper.find_test_files\<close> and \<^verbatim>\<open>TestMapper.extract_imports\<close>\<close>

text \<open>
  A Python set that the program iterates over is a list, one enumeration of the set
  in iteration order; a set that is only added to and tested for membership is a HOL
  set.  The theorems below hold for every such list, so for every iteration order.
\<close>

definition find_test_files :: "filesystem \<Rightarrow> path \<Rightarrow> path list option \<Rightarrow> path list" where
  "find_test_files fs project_root test_dirs_opt =
     (let test_dirs = (case test_dirs_opt of None \<Rightarrow> [[''tests''], [''test'']] | Some ds \<Rightarrow> ds)
      in fold (\<lambda>test_dir test_files.
                 let test_path = joinpath project_root test_dir
                 in if path_exists fs test_path
                    then fold List.insert (rglob fs test_path [] ''_test.py'')
                           (fold List.insert (rglob fs test_path ''test_'' ''.py'') test_files)
                    else test_files)
           test_dirs [])"

text \<open>The body of the loop \<^verbatim>\<open>for node in ast.walk(tree)\<close>.\<close>

fun visit :: "node \<Rightarrow> string set \<Rightarrow> string set" where
  "visit (Import names) imports =
     fold (\<lambda>alias imports. insert (hd (str_split CHR ''.'' (alias_name alias))) imports)
       names imports"
| "visit (ImportFrom module names level) imports =
     (case module of
        None \<Rightarrow> imports
      | Some m \<Rightarrow> if m \<noteq> [] then insert (hd (str_split CHR ''.'' m)) imports else imports)"
| "visit (Module body) imports = imports"
| "visit (FunctionDef f body) imports = imports"
| "visit (Other children) imports = imports"

text \<open>
  \<^verbatim>\<open>except (SyntaxError, UnicodeDecodeError): return set()\<close>; any other exception
  leaves the function.
\<close>

definition extract_imports :: "filesystem \<Rightarrow> path \<Rightarrow> py_error + string set" where
  "extract_imports fs file_path =
     (case parse_file fs file_path of
        Inl e \<Rightarrow> if e = SyntaxError \<or> e = UnicodeDecodeError then Inr {} else Inl e
      | Inr tree \<Rightarrow> Inr (fold visit (walk [tree]) {}))"

section \<open>\<^verbatim>\<open>TestMapper._get_test_candidates\<close> and \<^verbatim>\<open>TestMapper.find_affected_tests\<close>\<close>

text \<open>
  In \<^verbatim>\<open>_get_test_candidates\<close> every right operand of \<^verbatim>\<open>/\<close> is relative (a fixed
  directory name, the leading parts of a relative path, a file name), so \<^verbatim>\<open>/\<close>
  appends parts.  The candidates are appended in the order of the nested loops.
\<close>

definition get_test_candidates :: "filesystem \<Rightarrow> path \<Rightarrow> path \<Rightarrow> path list" where
  "get_test_candidates fs project_root source_file =
     (let filename = path_stem source_file;
          patterns = [''test_'' @ filename @ ''.py'', filename @ ''_test.py'']
      in concat (map (\<lambda>test_dir.
           let test_path = project_root @ [test_dir]
           in if path_exists fs test_path
              then concat (map (\<lambda>pattern.
                     [test_path @ [pattern]] @
                     (case relative_to source_file project_root of
                        None \<Rightarrow> []
                      | Some rel_path \<Rightarrow>
                          (let parts = (if rel_path \<noteq> [] \<and> hd rel_path = ''src''
                                        then tl rel_path else rel_path)
                           in if length parts > 1
                              then [test_path @ butlast parts @ [pattern]]
                              else [])))
                   patterns)
              else [])
         [''tests'', ''test'']))"

text \<open>
  The inner loop of Strategy 3,
  \<^verbatim>\<open>for changed_module in changed_modules: if module_root in imports: ...; break\<close>:
  whether some changed module's root is imported.
\<close>

fun module_imported :: "string list \<Rightarrow> string set \<Rightarrow> bool" where
  "module_imported [] imports = False"
| "module_imported (changed_module # changed_modules) imports =
     (let module_root = hd (str_split CHR ''.'' changed_module)
      in if module_root \<in> imports then True else module_imported changed_modules imports)"

text \<open>
  The outer loop of Strategy 3, \<^verbatim>\<open>for test_file in test_files\<close>.  An exception out of
  \<^verbatim>\<open>extract_imports\<close> ends the loop and the call.
\<close>

fun scan_imports ::
  "filesystem \<Rightarrow> string list \<Rightarrow> path list \<Rightarrow> path set \<Rightarrow> py_error + path set" where
  "scan_imports fs changed_modules [] affected_tests = Inr affected_tests"
| "scan_imports fs changed_modules (test_file # test_files) affected_tests =
     (case extract_imports fs test_file of
        Inl e \<Rightarrow> Inl e
      | Inr imports \<Rightarrow>
          scan_imports fs changed_modules test_files
            (if module_imported changed_modules imports
             then insert test_file affected_tests else affected_tests))"

definition find_affected_tests ::
  "filesystem \<Rightarrow> path \<Rightarrow> path list \<Rightarrow> path list option \<Rightarrow> py_error + path set" where
  "find_affected_tests fs project_root changed_files test_files_opt =
     (let test_files = (case test_files_opt of
                          None \<Rightarrow> find_test_files fs project_root None
                        | Some tf \<Rightarrow> tf);
          direct = fold (\<lambda>changed_file affected_tests.
                      if is_test_file changed_file
                      then insert changed_file affected_tests else affected_tests)
                    changed_files {};
          named = fold (\<lambda>changed_file affected_tests.
                      if \<not> is_test_file changed_file
                      then fold (\<lambda>candidate affected_tests.
                                   if candidate \<in> set test_files
                                   then insert candidate affected_tests else affected_tests)
                             (get_test_candidates fs project_root changed_file) affected_tests
                      else affected_tests)
                    changed_files direct;
          changed_modules = fold (\<lambda>changed_file changed_modules.
                      case get_module_path project_root changed_file of
                        None \<Rightarrow> changed_modules
                      | Some module_path \<Rightarrow>
                          if module_path \<noteq> [] then List.insert module_path changed_modules
                          else changed_modules)
                    changed_files []
      in scan_imports fs changed_modules test_files named)"

section \<open>The three strategies, each on its own\<close>

text \<open>
  The selector as the specification words it: the union of three sets that are
  computed independently of each other.  A changed file is resolvable when
  \<^verbatim>\<open>get_module_path\<close> gives it a non-empty module identifier.
\<close>

definition strategy_direct :: "path list \<Rightarrow> path set" where
  "strategy_direct changed_files = set (filter is_test_file changed_files)"

definition strategy_naming :: "filesystem \<Rightarrow> path \<Rightarrow> path list \<Rightarrow> path list \<Rightarrow> path set" where
  "strategy_naming fs project_root changed_files test_files =
     set (filter (\<lambda>candidate. candidate \<in> set test_files)
            (concat (map (get_test_candidates fs project_root)
               (filter (\<lambda>c. \<not> is_test_file c) changed_files))))"

definition changed_module_roots :: "path \<Rightarrow> path list \<Rightarrow> string set" where
  "changed_module_roots project_root changed_files =
     set (map (\<lambda>m. hd (str_split CHR ''.'' m))
            (filter (\<lambda>m. m \<noteq> [])
               (List.map_filter (get_module_path project_root) changed_files)))"

definition strategy_imports :: "filesystem \<Rightarrow> path \<Rightarrow> path list \<Rightarrow> path list \<Rightarrow> path set" where
  "strategy_imports fs project_root changed_files test_files =
     set (filter (\<lambda>test_file.
                    case extract_imports fs test_file of
                      Inl e \<Rightarrow> False
                    | Inr imports \<Rightarrow> imports \<inter> changed_module_roots project_root changed_files \<noteq> {})
            test_files)"

section \<open>Reference definitions\<close>

text \<open>
  The definitions of this section are not translations of code.  They state, in the
  words of the specification, what the code is compared with.
\<close>

text \<open>
  Opening, reading and parsing the file either succeeds or fails with a parse error
  (\<^verbatim>\<open>SyntaxError\<close>) or a decode error (\<^verbatim>\<open>UnicodeDecodeError\<close>).
\<close>

definition analysable :: "filesystem \<Rightarrow> path \<Rightarrow> bool" where
  "analysable fs p =
     (case parse_file fs p of
        Inl e \<Rightarrow> e = SyntaxError \<or> e = UnicodeDecodeError
      | Inr tree \<Rightarrow> True)"

text \<open>
  The test-file predicate as the specification words it: the file name starts with
  \<^verbatim>\<open>test_\<close> or ends with \<^verbatim>\<open>_test\<close> before its extension, whatever the extension is.
\<close>

definition is_test_file_spec :: "path \<Rightarrow> bool" where
  "is_test_file_spec file_path =
     (startswith (path_name file_path) ''test_'' \<or> endswith (path_stem file_path) ''_test'')"

text \<open>
  The relative parts of an ordinary Python source path: no directory name contains a
  dot, and the file name is a stem without dots followed by \<^verbatim>\<open>.py\<close>.
\<close>

definition simple_python_path :: "path \<Rightarrow> bool" where
  "simple_python_path parts =
     (parts \<noteq> [] \<and> list_all (\<lambda>s. CHR ''.'' \<notin> set s) (butlast parts) \<and>
      suffix ''.py'' (last parts) \<and>
      CHR ''.'' \<notin> set (take (length (last parts) - 3) (last parts)))"

text \<open>
  The names one statement imports, and the names imported anywhere in a tree, by
  recursion over the tree.
\<close>

fun node_imports :: "node \<Rightarrow> string set" where
  "node_imports (Import names) =
     set (map (\<lambda>alias. hd (str_split CHR ''.'' (alias_name alias))) names)"
| "node_imports (ImportFrom None names level) = {}"
| "node_imports (ImportFrom (Some m) names level) =
     (if m = [] then {} else {hd (str_split CHR ''.'' m)})"
| "node_imports (Module body) = {}"
| "node_imports (FunctionDef f body) = {}"
| "node_imports (Other children) = {}"

fun tree_imports :: "node \<Rightarrow> string set" where
  "tree_imports (Module body) = (\<Union>n\<in>set body. tree_imports n)"
| "tree_imports (FunctionDef f body) = (\<Union>n\<in>set body. tree_imports n)"
| "tree_imports (Import names) = node_imports (Import names)"
| "tree_imports (ImportFrom m names level) = node_imports (ImportFrom m names level)"
| "tree_imports (Other children) = (\<Union>n\<in>set children. tree_imports n)"

text \<open>
  A small project for concrete runs: one source file, a test that mirrors it, a test
  with a syntax error, and a test that imports inside a function body.
\<close>

definition example_fs :: filesystem where
  "example_fs =
     [([''src'', ''pkg'', ''foo.py''], File (Parsed (Module []))),
      ([''tests'', ''pkg'', ''test_foo.py''],
         File (Parsed (Module [ImportFrom (Some ''pkg.sub'') [Alias ''f'' None] 0]))),
      ([''tests'', ''test_bad.py''], File Malformed),
      ([''tests'', ''test_util.py''],
         File (Parsed (Module [FunctionDef ''helper'' [Import [Alias ''tests.helpers'' None]]])))]"

lemmas eval_defs =
  example_fs_def analysable_def find_affected_tests_def extract_imports_def parse_file_def
  path_exists_def below_file_def get_module_path_def relative_to_def is_absolute_def is_test_file_def
  path_name_def startswith_def endswith_def get_test_candidates_def path_stem_def rfind_def
  suffix_def Let_def

section \<open>Facts about strings and paths\<close>

lemma str_split_nonempty: "str_split sep s \<noteq> []"
  by (induction s) simp_all

lemma hd_str_split: "hd (str_split sep s) = takeWhile (\<lambda>c. c \<noteq> sep) s"
  by (induction s) simp_all

lemma str_split_free: "sep \<notin> set x \<Longrightarrow> str_split sep x = [x]"
  by (induction x) auto

lemma str_split_append:
  "sep \<notin> set x \<Longrightarrow> str_split sep (x @ sep # rest) = x # str_split sep rest"
  by (induction x) auto

lemma str_split_join:
  "xs \<noteq> [] \<Longrightarrow> \<forall>x\<in>set xs. sep \<notin> set x \<Longrightarrow> str_split sep (str_join [sep] xs) = xs"
  by (induction "[sep]" xs rule: str_join.induct) (simp_all add: str_split_free str_split_append)

lemma str_replace_py: "CHR ''.'' \<notin> set s \<Longrightarrow> str_replace ''.py'' [] (s @ ''.py'') = s"
  by (induction s) auto

lemma rfind_py: "rfind (s @ ''.py'') CHR ''.'' = int (length s)"
  by (simp add: rfind_def)

lemma path_stem_py: "path_name p = s @ ''.py'' \<Longrightarrow> s \<noteq> [] \<Longrightarrow> path_stem p = s"
  by (simp add: path_stem_def rfind_py Let_def)


lemma relative_to_Some: "relative_to p root = Some rp \<Longrightarrow> p = root @ rp"
  by (auto simp: relative_to_def prefix_def split: if_splits)

lemma relative_to_under:
  "x \<noteq> ''/'' \<Longrightarrow> x \<noteq> ''//'' \<Longrightarrow> relative_to (root @ x # rest) root = Some (x # rest)"
  by (simp add: relative_to_def is_absolute_def)

lemma update_last: "parts \<noteq> [] \<Longrightarrow> parts[length parts - Suc 0 := x] = butlast parts @ [x]"
  by (induction parts rule: rev_induct) (simp_all add: list_update_append)

section \<open>Facts about module paths and the test-file predicate\<close>

lemma get_module_path_outside:
  "relative_to p project_root = None \<Longrightarrow> get_module_path project_root p = None"
  by (simp add: get_module_path_def)

lemma get_module_path_plain:
  assumes "relative_to p project_root = Some parts" "parts \<noteq> []" "hd parts \<noteq> ''src''"
  shows "get_module_path project_root p =
           Some (str_join ''.'' (butlast parts @ [str_replace ''.py'' '''' (last parts)]))"
  using assms by (simp add: get_module_path_def update_last)

lemma get_module_path_src:
  assumes "relative_to p project_root = Some (''src'' # parts)" "parts \<noteq> []"
  shows "get_module_path project_root p =
           Some (str_join ''.'' (butlast parts @ [str_replace ''.py'' '''' (last parts)]))"
  using assms by (simp add: get_module_path_def update_last)

lemma tests_dir_module:
  "get_module_path root (root @ [''tests'', name])
     = Some (''tests.'' @ str_replace ''.py'' '''' name)"
proof -
  have "relative_to (root @ [''tests'', name]) root = Some [''tests'', name]"
    by (rule relative_to_under) simp_all
  then show ?thesis
    using get_module_path_plain [of "root @ [''tests'', name]" root "[''tests'', name]"] by simp
qed

lemma simple_python_path_module:
  assumes "simple_python_path parts"
  shows "str_split CHR ''.''
           (str_join ''.'' (butlast parts @ [str_replace ''.py'' '''' (last parts)]))
           = butlast parts @ [take (length (last parts) - 3) (last parts)]"
proof -
  from assms obtain stem where stem: "last parts = stem @ ''.py''"
    by (auto simp: simple_python_path_def suffix_def)
  with assms have free: "CHR ''.'' \<notin> set stem"
    by (simp add: simple_python_path_def)
  have rep: "str_replace ''.py'' '''' (last parts) = stem"
    using stem free by (simp add: str_replace_py)
  have "\<forall>x\<in>set (butlast parts @ [stem]). CHR ''.'' \<notin> set x"
    using assms free by (auto simp: simple_python_path_def list_all_iff)
  then have "str_split CHR ''.'' (str_join [CHR ''.''] (butlast parts @ [stem]))
               = butlast parts @ [stem]"
    by (intro str_split_join) simp_all
  then show ?thesis
    using rep stem by simp
qed

lemma simple_python_path_inj:
  assumes "simple_python_path a" "simple_python_path b"
    and "str_join ''.'' (butlast a @ [str_replace ''.py'' '''' (last a)])
           = str_join ''.'' (butlast b @ [str_replace ''.py'' '''' (last b)])"
  shows "a = b"
proof -
  have "butlast a @ [take (length (last a) - 3) (last a)]
          = butlast b @ [take (length (last b) - 3) (last b)]"
    using simple_python_path_module [OF assms(1)] simple_python_path_module [OF assms(2)] assms(3)
    by simp
  then have bl: "butlast a = butlast b"
    and st: "take (length (last a) - 3) (last a) = take (length (last b) - 3) (last b)"
    by simp_all
  from assms(1) obtain sa where sa: "last a = sa @ ''.py''"
    by (auto simp: simple_python_path_def suffix_def)
  from assms(2) obtain sb where sb: "last b = sb @ ''.py''"
    by (auto simp: simple_python_path_def suffix_def)
  from st sa sb have "last a = last b" by simp
  moreover have "a = butlast a @ [last a]" "b = butlast b @ [last b]"
    using assms(1,2) by (simp_all add: simple_python_path_def)
  ultimately show ?thesis
    using bl by metis
qed

lemma simple_python_path_tl:
  "simple_python_path (x # parts) \<Longrightarrow> parts \<noteq> [] \<Longrightarrow> simple_python_path parts"
  by (cases parts) (auto simp: simple_python_path_def)

lemma get_module_path_injective_on_simple:
  assumes rp: "relative_to p root = Some rp" and rq: "relative_to q root = Some rq"
    and same: "(hd rp = ''src'') = (hd rq = ''src'')"
    and sp: "simple_python_path rp" and sq: "simple_python_path rq"
    and ne: "p \<noteq> q"
  shows "get_module_path root p \<noteq> get_module_path root q
         \<and> get_module_path root p \<noteq> None \<and> get_module_path root q \<noteq> None"
proof (cases "hd rp = ''src''")
  case False
  with same have fq: "hd rq \<noteq> ''src''" by simp
  have np: "rp \<noteq> []" and nq: "rq \<noteq> []"
    using sp sq by (simp_all add: simple_python_path_def)
  have "rp \<noteq> rq"
    using ne relative_to_Some [OF rp] relative_to_Some [OF rq] by auto
  then show ?thesis
    using get_module_path_plain [OF rp np False] get_module_path_plain [OF rq nq fq]
      simple_python_path_inj [OF sp sq] by auto
next
  case True
  with same have tq: "hd rq = ''src''" by simp
  have np: "rp \<noteq> []" and nq: "rq \<noteq> []"
    using sp sq by (simp_all add: simple_python_path_def)
  obtain a where a: "rp = ''src'' # a" using True np by (cases rp) auto
  obtain b where b: "rq = ''src'' # b" using tq nq by (cases rq) auto
  have an: "a \<noteq> []" using sp a by (auto simp: simple_python_path_def suffix_def)
  have bn: "b \<noteq> []" using sq b by (auto simp: simple_python_path_def suffix_def)
  have sa: "simple_python_path a" using simple_python_path_tl sp a an by blast
  have sb: "simple_python_path b" using simple_python_path_tl sq b bn by blast
  have "a \<noteq> b"
    using ne relative_to_Some [OF rp] relative_to_Some [OF rq] a b by auto
  then show ?thesis
    using get_module_path_src [of p root a] get_module_path_src [of q root b] rp rq a b an bn
      simple_python_path_inj [OF sa sb] by auto
qed

lemma get_module_path_src_identified:
  assumes "relative_to p root = Some (''src'' # parts)" "relative_to q root = Some parts"
    and "parts \<noteq> []" "hd parts \<noteq> ''src''"
  shows "get_module_path root p = get_module_path root q"
  using get_module_path_src [OF assms(1,3)] get_module_path_plain [OF assms(2-4)] by simp

lemma is_test_file_iff:
  "is_test_file p \<longleftrightarrow> prefix ''test_'' (path_name p) \<or> suffix ''_test.py'' (path_name p)"
  by (simp add: is_test_file_def startswith_def endswith_def Let_def)

lemma is_test_file_py:
  assumes "path_name p = s @ ''.py''" "s \<noteq> []"
  shows "is_test_file p \<longleftrightarrow> is_test_file_spec p"
proof -
  have "suffix ''_test.py'' (s @ ''.py'') \<longleftrightarrow> suffix ''_test'' s"
    using same_suffix_suffix [of "''_test''" "''.py''" s] by simp
  then show ?thesis
    using assms
    by (simp add: is_test_file_iff is_test_file_spec_def startswith_def endswith_def path_stem_py)
qed

lemma is_test_file_imp_spec:
  assumes "is_test_file p"
  shows "is_test_file_spec p"
proof (cases "prefix ''test_'' (path_name p)")
  case True
  then show ?thesis
    by (simp add: is_test_file_spec_def startswith_def)
next
  case False
  with assms have "suffix ''_test.py'' (path_name p)"
    by (simp add: is_test_file_iff)
  then obtain x where "path_name p = x @ ''_test.py''"
    by (auto simp: suffix_def)
  then have "path_name p = (x @ ''_test'') @ ''.py''"
    by simp
  then have "path_stem p = x @ ''_test''"
    by (rule path_stem_py) simp
  then show ?thesis
    by (simp add: is_test_file_spec_def endswith_def suffix_def)
qed

section \<open>Facts about the loops\<close>

lemma fold_insert_if:
  "fold (\<lambda>x acc. if P x then insert x acc else acc) xs A = A \<union> set (filter P xs)"
  by (induction xs arbitrary: A) auto

lemma fold_insert_map: "fold (\<lambda>x acc. insert (f x) acc) xs A = A \<union> set (map f xs)"
  by (induction xs arbitrary: A) auto

lemma fold_named:
  "fold (\<lambda>c acc. if \<not> P c
                 then fold (\<lambda>cand acc. if Q cand then insert cand acc else acc) (f c) acc
                 else acc) xs A
     = A \<union> set (filter Q (concat (map f (filter (\<lambda>c. \<not> P c) xs))))"
  by (induction xs arbitrary: A) (auto simp: fold_insert_if)

lemma fold_modules:
  "set (fold (\<lambda>c ms. case g c of None \<Rightarrow> ms
                     | Some m \<Rightarrow> if m \<noteq> [] then List.insert m ms else ms) xs ms0)
     = set ms0 \<union> set (filter (\<lambda>m. m \<noteq> []) (List.map_filter g xs))"
  by (induction xs arbitrary: ms0) (auto simp: List.map_filter_simps split: option.splits)

lemma set_map_filter: "set (List.map_filter f xs) = {y. \<exists>x\<in>set xs. f x = Some y}"
  by (induction xs) (auto simp: List.map_filter_simps split: option.splits)

lemma module_imported_iff:
  "module_imported ms imports \<longleftrightarrow> (\<exists>m\<in>set ms. hd (str_split CHR ''.'' m) \<in> imports)"
  by (induction ms) (auto simp: Let_def)

lemma scan_imports_Inr:
  "\<forall>t\<in>set ts. \<not> isl (extract_imports fs t) \<Longrightarrow>
   scan_imports fs ms ts A =
     Inr (A \<union> set (filter (\<lambda>t. case extract_imports fs t of Inl e \<Rightarrow> False
                                 | Inr i \<Rightarrow> module_imported ms i) ts))"
  by (induction ts arbitrary: A) (auto split: sum.splits)

lemma scan_imports_isl:
  "isl (scan_imports fs ms ts A) \<longleftrightarrow> (\<exists>t\<in>set ts. isl (extract_imports fs t))"
  by (induction ts arbitrary: A) (auto split: sum.splits)


section \<open>Facts about import extraction and the file system\<close>





lemma visit_node_imports: "visit n A = A \<union> node_imports n"
  by (cases n rule: node_imports.cases) (auto simp: fold_insert_map)

lemma fold_visit: "fold visit ns A = A \<union> (\<Union>n\<in>set ns. node_imports n)"
  by (induction ns arbitrary: A) (auto simp: visit_node_imports)

lemma tree_imports_unfold:
  "tree_imports n = node_imports n \<union> (\<Union>c\<in>set (iter_child_nodes n). tree_imports c)"
  by (cases n) simp_all

lemma walk_imports: "(\<Union>n\<in>set (walk todo). node_imports n) = (\<Union>n\<in>set todo. tree_imports n)"
proof (induction todo rule: walk.induct)
  case 1
  show ?case by simp
next
  case (2 n todo)
  have "(\<Union>n\<in>set (walk (n # todo)). node_imports n)
          = node_imports n \<union> (\<Union>n\<in>set (walk (todo @ iter_child_nodes n)). node_imports n)"
    by simp
  also have "\<dots> = node_imports n \<union> (\<Union>c\<in>set (todo @ iter_child_nodes n). tree_imports c)"
    using 2 by simp
  also have "\<dots> = (\<Union>n\<in>set (n # todo). tree_imports n)"
    using tree_imports_unfold [of n] by auto
  finally show ?case .
qed

lemma extract_imports_parsed:
  assumes "parse_file fs p = Inr tree"
  shows "extract_imports fs p = Inr (tree_imports tree)"
proof -
  have "fold visit (walk [tree]) {} = tree_imports tree"
    unfolding fold_visit walk_imports by simp
  with assms show ?thesis
    by (simp add: extract_imports_def)
qed

section \<open>Facts about the selector\<close>

lemma find_affected_tests_None:
  "find_affected_tests fs root changed None
     = find_affected_tests fs root changed (Some (find_test_files fs root None))"
  by (simp add: find_affected_tests_def)

lemma find_affected_tests_scan:
  "find_affected_tests fs root changed (Some tests) =
     scan_imports fs
       (fold (\<lambda>changed_file changed_modules.
                case get_module_path root changed_file of
                  None \<Rightarrow> changed_modules
                | Some module_path \<Rightarrow>
                    if module_path \<noteq> [] then List.insert module_path changed_modules
                    else changed_modules) changed [])
       tests (strategy_direct changed \<union> strategy_naming fs root changed tests)"
  by (simp add: find_affected_tests_def fold_insert_if fold_named strategy_direct_def
      strategy_naming_def)

lemma find_affected_tests_isl:
  "isl (find_affected_tests fs root changed (Some tests))
     \<longleftrightarrow> (\<exists>t\<in>set tests. isl (extract_imports fs t))"
  by (simp add: find_affected_tests_scan scan_imports_isl)

lemma find_affected_tests_total:
  assumes "\<forall>t\<in>set tests. \<not> isl (extract_imports fs t)"
  shows "find_affected_tests fs root changed (Some tests) =
           Inr (strategy_direct changed \<union> strategy_naming fs root changed tests
                \<union> strategy_imports fs root changed tests)"
proof -
  let ?ms = "fold (\<lambda>changed_file changed_modules.
                case get_module_path root changed_file of
                  None \<Rightarrow> changed_modules
                | Some module_path \<Rightarrow>
                    if module_path \<noteq> [] then List.insert module_path changed_modules
                    else changed_modules) changed []"
  have ms: "set ?ms = set (filter (\<lambda>m. m \<noteq> []) (List.map_filter (get_module_path root) changed))"
    by (simp add: fold_modules)
  have "module_imported ?ms i \<longleftrightarrow> i \<inter> changed_module_roots root changed \<noteq> {}" for i
    unfolding module_imported_iff ms changed_module_roots_def by auto
  then have "set (filter (\<lambda>t. case extract_imports fs t of Inl e \<Rightarrow> False
                               | Inr i \<Rightarrow> module_imported ?ms i) tests)
             = strategy_imports fs root changed tests"
    by (auto simp: strategy_imports_def split: sum.splits)
  then show ?thesis
    using scan_imports_Inr [OF assms, of ?ms] by (simp add: find_affected_tests_scan)
qed

lemma find_affected_tests_result:
  assumes "find_affected_tests fs root changed (Some tests) = Inr S"
  shows "S = strategy_direct changed \<union> strategy_naming fs root changed tests
                \<union> strategy_imports fs root changed tests"
    and "\<forall>t\<in>set tests. \<not> isl (extract_imports fs t)"
proof -
  have "\<not> isl (find_affected_tests fs root changed (Some tests))"
    using assms by simp
  then show all: "\<forall>t\<in>set tests. \<not> isl (extract_imports fs t)"
    by (simp add: find_affected_tests_isl)
  show "S = strategy_direct changed \<union> strategy_naming fs root changed tests
                \<union> strategy_imports fs root changed tests"
    using find_affected_tests_total [OF all, of root changed] assms by simp
qed

lemma strategy_sets_subset:
  "strategy_direct changed \<union> strategy_naming fs root changed tests
     \<union> strategy_imports fs root changed tests
   \<subseteq> set tests \<union> {c \<in> set changed. is_test_file c}"
  by (auto simp: strategy_direct_def strategy_naming_def strategy_imports_def)

lemma changed_module_roots_iff:
  "r \<in> changed_module_roots root changed \<longleftrightarrow>
     (\<exists>c\<in>set changed. \<exists>m. get_module_path root c = Some m \<and> m \<noteq> []
        \<and> r = takeWhile (\<lambda>x. x \<noteq> CHR ''.'') m)"
  by (auto simp: changed_module_roots_def set_map_filter hd_str_split)

lemma imports_select:
  assumes "t \<in> set tests" "extract_imports fs t = Inr imports"
    and "imports \<inter> changed_module_roots root changed \<noteq> {}"
    and "find_affected_tests fs root changed (Some tests) = Inr S"
  shows "t \<in> S"
proof -
  have "t \<in> strategy_imports fs root changed tests"
    using assms(1-3) by (simp add: strategy_imports_def)
  then show ?thesis
    using find_affected_tests_result(1) [OF assms(4)] by simp
qed





section \<open>Failure semantics of the selector\<close>




section \<open>The union of the three strategies\<close>



text \<open>
  Claim C3.  Whenever \<^verbatim>\<open>find_affected_tests\<close> returns a set, that set lies inside the
  union of the supplied test-file set and the changed files that satisfy the test-file
  predicate.  When no test-file set is supplied the same holds with the discovered set.
\<close>

theorem find_affected_tests_subset:
  "(find_affected_tests fs root changed (Some tests) = Inr S \<longrightarrow>
      S \<subseteq> set tests \<union> {c \<in> set changed. is_test_file c})
   \<and> (find_affected_tests fs root changed None = Inr S' \<longrightarrow>
      S' \<subseteq> set (find_test_files fs root None) \<union> {c \<in> set changed. is_test_file c})"
proof -
  have sub: "T \<subseteq> set ts \<union> {c \<in> set changed. is_test_file c}"
    if "find_affected_tests fs root changed (Some ts) = Inr T" for ts T
    using find_affected_tests_result(1) [OF that] strategy_sets_subset [of changed fs root ts]
    by simp
  show ?thesis
    using sub [of tests S] sub [of "find_test_files fs root None" S']
    by (simp add: find_affected_tests_None)
qed

theorem find_affected_tests_subset_witness:
  "find_affected_tests example_fs [] [[''src'', ''pkg'', ''foo.py''], [''tests'', ''test_new.py'']]
      (Some [[''tests'', ''pkg'', ''test_foo.py''], [''tests'', ''test_bad.py'']])
     = Inr {[''tests'', ''test_new.py''], [''tests'', ''pkg'', ''test_foo.py'']}
   \<and> {[''tests'', ''test_new.py''], [''tests'', ''pkg'', ''test_foo.py'']}
       \<subseteq> set [[''tests'', ''pkg'', ''test_foo.py''], [''tests'', ''test_bad.py'']]
         \<union> {c \<in> set [[''src'', ''pkg'', ''foo.py''], [''tests'', ''test_new.py'']]. is_test_file c}
   \<and> find_affected_tests example_fs [] [[''src'', ''pkg'', ''foo.py'']] None
     = Inr {[''tests'', ''pkg'', ''test_foo.py'']}
   \<and> {[''tests'', ''pkg'', ''test_foo.py'']}
       \<subseteq> set (find_test_files example_fs [] None)
         \<union> {c \<in> set [[''src'', ''pkg'', ''foo.py'']]. is_test_file c}"
proof -
  have a: "find_affected_tests example_fs [] [[''src'', ''pkg'', ''foo.py''], [''tests'', ''test_new.py'']]
      (Some [[''tests'', ''pkg'', ''test_foo.py''], [''tests'', ''test_bad.py'']])
     = Inr {[''tests'', ''test_new.py''], [''tests'', ''pkg'', ''test_foo.py'']}"
    by (simp add: eval_defs insert_commute)
  have b: "find_affected_tests example_fs [] [[''src'', ''pkg'', ''foo.py'']] None
     = Inr {[''tests'', ''pkg'', ''test_foo.py'']}"
    by (simp add: eval_defs find_test_files_def joinpath_def rglob_def all_paths_def fnmatch_def
        prefixes_snoc)
  show ?thesis
    using find_affected_tests_subset [THEN conjunct1, rule_format, OF a]
      find_affected_tests_subset [THEN conjunct2, rule_format, OF b] a b by blast
qed

section \<open>Module path resolution\<close>

text \<open>
  Claim C4.  Under the project root \<^verbatim>\<open>.\<close> the paths \<^verbatim>\<open>src/mypackage/module.py\<close> and
  \<^verbatim>\<open>mypackage/module.py\<close> both resolve to \<^verbatim>\<open>mypackage.module\<close>; a path that does not lie
  under the project root resolves to \<open>None\<close>; and only a leading \<^verbatim>\<open>src\<close> segment is
  dropped: when the first relative segment is not \<^verbatim>\<open>src\<close> every segment is kept, and
  when it is, exactly that one segment is dropped and every later segment (a later
  \<^verbatim>\<open>src\<close> included) is kept, as in \<^verbatim>\<open>pkg/src/mod.py\<close> and \<^verbatim>\<open>src/src/mod.py\<close>.
\<close>

theorem get_module_path_resolution:
  "get_module_path [] [''src'', ''mypackage'', ''module.py''] = Some ''mypackage.module''
   \<and> get_module_path [] [''mypackage'', ''module.py''] = Some ''mypackage.module''
   \<and> (\<not> prefix root1 p1 \<or> (root1 = [] \<and> is_absolute p1) \<longrightarrow> get_module_path root1 p1 = None)
   \<and> (relative_to p2 root2 = Some parts2 \<and> parts2 \<noteq> [] \<and> hd parts2 \<noteq> ''src'' \<longrightarrow>
        get_module_path root2 p2 =
          Some (str_join ''.'' (butlast parts2 @ [str_replace ''.py'' '''' (last parts2)])))
   \<and> (relative_to p3 root3 = Some (''src'' # parts3) \<and> parts3 \<noteq> [] \<longrightarrow>
        get_module_path root3 p3 =
          Some (str_join ''.'' (butlast parts3 @ [str_replace ''.py'' '''' (last parts3)])))
   \<and> get_module_path [] [''pkg'', ''src'', ''mod.py''] = Some ''pkg.src.mod''
   \<and> get_module_path [] [''src'', ''src'', ''mod.py''] = Some ''src.mod''"
proof -
  have a: "get_module_path [] [''src'', ''mypackage'', ''module.py''] = Some ''mypackage.module''"
    by (simp add: get_module_path_def relative_to_def is_absolute_def)
  have b: "get_module_path [] [''mypackage'', ''module.py''] = Some ''mypackage.module''"
    by (simp add: get_module_path_def relative_to_def is_absolute_def)
  have c: "\<not> prefix root1 p1 \<or> (root1 = [] \<and> is_absolute p1) \<longrightarrow> get_module_path root1 p1 = None"
    by (auto simp: relative_to_def intro!: get_module_path_outside)
  have d: "get_module_path [] [''pkg'', ''src'', ''mod.py''] = Some ''pkg.src.mod''"
    by (simp add: get_module_path_def relative_to_def is_absolute_def)
  have e: "get_module_path [] [''src'', ''src'', ''mod.py''] = Some ''src.mod''"
    by (simp add: get_module_path_def relative_to_def is_absolute_def)
  show ?thesis
    using a b c d e get_module_path_plain [of p2 root2 parts2]
      get_module_path_src [of p3 root3 parts3]
    by blast
qed

theorem get_module_path_resolution_witness:
  "(\<not> prefix [''/'', ''proj''] [''/'', ''other'', ''x.py''] \<and>
      get_module_path [''/'', ''proj''] [''/'', ''other'', ''x.py''] = None)
   \<and> (relative_to [''/'', ''proj'', ''a'', ''src'', ''b.py''] [''/'', ''proj'']
         = Some [''a'', ''src'', ''b.py''] \<and>
      get_module_path [''/'', ''proj''] [''/'', ''proj'', ''a'', ''src'', ''b.py''] = Some ''a.src.b'')
   \<and> (relative_to [''/'', ''proj'', ''src'', ''a'', ''src'', ''b.py''] [''/'', ''proj'']
         = Some [''src'', ''a'', ''src'', ''b.py''] \<and>
      get_module_path [''/'', ''proj''] [''/'', ''proj'', ''src'', ''a'', ''src'', ''b.py'']
         = Some ''a.src.b'')"
  using get_module_path_resolution
    [of "[''/'', ''proj'']" "[''/'', ''other'', ''x.py'']"
        "[''/'', ''proj'', ''a'', ''src'', ''b.py'']" "[''/'', ''proj'']" "[''a'', ''src'', ''b.py'']"
        "[''/'', ''proj'', ''src'', ''a'', ''src'', ''b.py'']" "[''/'', ''proj'']"
        "[''a'', ''src'', ''b.py'']"]
  by (simp add: relative_to_def)

text \<open>
  Claim C5, as stated, fails.  The derivation of a module identifier is not injective:
  the two distinct paths \<^verbatim>\<open>src/a.py\<close> and \<^verbatim>\<open>a.py\<close> under the project root \<^verbatim>\<open>.\<close> both
  resolve, and both to \<^verbatim>\<open>a\<close>, since dropping a leading \<^verbatim>\<open>src\<close> is what the function is
  for.
\<close>

theorem src_prefix_collision:
  "[''src'', ''a.py''] \<noteq> [''a.py'']
   \<and> get_module_path [] [''src'', ''a.py''] = Some ''a''
   \<and> get_module_path [] [''a.py''] = Some ''a''"
  by (simp add: get_module_path_def relative_to_def is_absolute_def)

text \<open>
  Claim C5, amended.  The derivation is injective on ordinary Python source paths that
  lie on the same side of the \<^verbatim>\<open>src\<close> directory: two distinct paths under the project
  root, both or neither of which start with \<^verbatim>\<open>src\<close> relative to the root, whose
  directory names contain no dot and whose file names are a stem without dots followed
  by \<^verbatim>\<open>.py\<close>, both resolve, and to distinct module identifiers.  Across that
  boundary the derivation identifies paths: \<^verbatim>\<open>src/X\<close> and \<^verbatim>\<open>X\<close> under the project root
  resolve to the same module identifier.
\<close>

theorem get_module_path_injective:
  "(relative_to p root = Some rp \<and> relative_to q root = Some rq
      \<and> (hd rp = ''src'') = (hd rq = ''src'')
      \<and> simple_python_path rp \<and> simple_python_path rq \<and> p \<noteq> q \<longrightarrow>
      get_module_path root p \<noteq> get_module_path root q
      \<and> get_module_path root p \<noteq> None \<and> get_module_path root q \<noteq> None)
   \<and> (relative_to p' root' = Some (''src'' # parts) \<and> relative_to q' root' = Some parts
      \<and> parts \<noteq> [] \<and> hd parts \<noteq> ''src'' \<longrightarrow>
      get_module_path root' p' = get_module_path root' q')"
proof -
  have "get_module_path root p \<noteq> get_module_path root q
      \<and> get_module_path root p \<noteq> None \<and> get_module_path root q \<noteq> None"
    if "relative_to p root = Some rp" "relative_to q root = Some rq"
      "(hd rp = ''src'') = (hd rq = ''src'')"
      "simple_python_path rp" "simple_python_path rq" "p \<noteq> q"
    using that by (rule get_module_path_injective_on_simple)
  moreover have "get_module_path root' p' = get_module_path root' q'"
    if "relative_to p' root' = Some (''src'' # parts)" "relative_to q' root' = Some parts"
      "parts \<noteq> []" "hd parts \<noteq> ''src''"
    using that by (rule get_module_path_src_identified)
  ultimately show ?thesis by blast
qed

theorem get_module_path_injective_witness:
  "relative_to [''/'', ''proj'', ''src'', ''pkg'', ''a.py''] [''/'', ''proj'']
      = Some [''src'', ''pkg'', ''a.py'']
   \<and> relative_to [''/'', ''proj'', ''src'', ''pkg'', ''b.py''] [''/'', ''proj'']
      = Some [''src'', ''pkg'', ''b.py'']
   \<and> simple_python_path [''src'', ''pkg'', ''a.py'']
   \<and> simple_python_path [''src'', ''pkg'', ''b.py'']
   \<and> get_module_path [''/'', ''proj''] [''/'', ''proj'', ''src'', ''pkg'', ''a.py'']
        \<noteq> get_module_path [''/'', ''proj''] [''/'', ''proj'', ''src'', ''pkg'', ''b.py'']
   \<and> get_module_path [''/'', ''proj''] [''/'', ''proj'', ''src'', ''pkg'', ''a.py''] = Some ''pkg.a''
   \<and> relative_to [''/'', ''proj'', ''pkg'', ''a.py''] [''/'', ''proj''] = Some [''pkg'', ''a.py'']
   \<and> get_module_path [''/'', ''proj''] [''/'', ''proj'', ''src'', ''pkg'', ''a.py'']
        = get_module_path [''/'', ''proj''] [''/'', ''proj'', ''pkg'', ''a.py'']"
proof -
  have a: "relative_to [''/'', ''proj'', ''src'', ''pkg'', ''a.py''] [''/'', ''proj'']
      = Some [''src'', ''pkg'', ''a.py'']"
    by (simp add: relative_to_def)
  have b: "relative_to [''/'', ''proj'', ''src'', ''pkg'', ''b.py''] [''/'', ''proj'']
      = Some [''src'', ''pkg'', ''b.py'']"
    by (simp add: relative_to_def)
  have c: "(hd [''src'', ''pkg'', ''a.py''] = ''src'') = (hd [''src'', ''pkg'', ''b.py''] = ''src'')"
    by simp
  have d: "simple_python_path [''src'', ''pkg'', ''a.py'']"
    by (simp add: simple_python_path_def suffix_def)
  have e: "simple_python_path [''src'', ''pkg'', ''b.py'']"
    by (simp add: simple_python_path_def suffix_def)
  have f: "[''/'', ''proj'', ''src'', ''pkg'', ''a.py''] \<noteq> [''/'', ''proj'', ''src'', ''pkg'', ''b.py'']"
    by simp
  have g: "get_module_path [''/'', ''proj''] [''/'', ''proj'', ''src'', ''pkg'', ''a.py''] = Some ''pkg.a''"
    by (simp add: get_module_path_def relative_to_def)
  have h: "relative_to [''/'', ''proj'', ''pkg'', ''a.py''] [''/'', ''proj'']
      = Some [''pkg'', ''a.py'']"
    by (simp add: relative_to_def)
  have i: "get_module_path [''/'', ''proj''] [''/'', ''proj'', ''src'', ''pkg'', ''a.py'']
        = get_module_path [''/'', ''proj''] [''/'', ''proj'', ''pkg'', ''a.py'']"
    using get_module_path_injective
      [where p' = "[''/'', ''proj'', ''src'', ''pkg'', ''a.py'']" and root' = "[''/'', ''proj'']"
         and parts = "[''pkg'', ''a.py'']" and q' = "[''/'', ''proj'', ''pkg'', ''a.py'']",
       THEN conjunct2] a h
    by simp
  have j: "get_module_path [''/'', ''proj''] [''/'', ''proj'', ''src'', ''pkg'', ''a.py'']
        \<noteq> get_module_path [''/'', ''proj''] [''/'', ''proj'', ''src'', ''pkg'', ''b.py'']"
    using get_module_path_injective
      [where p = "[''/'', ''proj'', ''src'', ''pkg'', ''a.py'']" and root = "[''/'', ''proj'']"
         and q = "[''/'', ''proj'', ''src'', ''pkg'', ''b.py'']"
         and rp = "[''src'', ''pkg'', ''a.py'']" and rq = "[''src'', ''pkg'', ''b.py'']",
       THEN conjunct1] a b c d e f
    by simp
  show ?thesis
    using a b d e g h i j by simp
qed

section \<open>Import extraction\<close>

text \<open>
  Claim C6, as stated, fails.  The claim says that a file whose import statements all
  stand inside function bodies has an empty import set.  The module below has a single
  import, inside the body of a function, and no import at its top level;
  \<^verbatim>\<open>ast.walk\<close> visits every node of the tree, so the import is recorded.
\<close>

theorem nested_import_extracted:
  "extract_imports
     [([''tests'', ''test_lazy.py''],
        File (Parsed (Module [FunctionDef ''test_it'' [Import [Alias ''os.path'' None]]])))]
     [''tests'', ''test_lazy.py''] = Inr {''os''}"
  by (simp add: extract_imports_def parse_file_def)

text \<open>
  Claim C6, amended.  \<^verbatim>\<open>extract_imports\<close> captures every static import statement of
  the file, at the top level of the module or nested at any depth inside function and
  other bodies: for a file that parses, the result is the set of first dotted segments
  of the names of all \<^verbatim>\<open>import\<close> statements and of the modules of all
  \<^verbatim>\<open>from ... import\<close> statements in the whole tree.  Relative imports with no module
  name contribute nothing in all cases.
\<close>

theorem extract_imports_all_depths:
  "(parse_file fs p = Inr tree \<longrightarrow> extract_imports fs p = Inr (tree_imports tree))
   \<and> visit (ImportFrom None names level) imports = imports
   \<and> tree_imports (ImportFrom None names level) = {}"
proof -
  have "extract_imports fs p = Inr (tree_imports tree)" if "parse_file fs p = Inr tree"
    using that by (rule extract_imports_parsed)
  moreover have "visit (ImportFrom None names level) imports = imports"
    by simp
  moreover have "tree_imports (ImportFrom None names level) = {}"
    by simp
  ultimately show ?thesis by blast
qed

theorem extract_imports_all_depths_witness:
  "parse_file example_fs [''tests'', ''test_util.py'']
     = Inr (Module [FunctionDef ''helper'' [Import [Alias ''tests.helpers'' None]]])
   \<and> extract_imports example_fs [''tests'', ''test_util.py'']
     = Inr (tree_imports (Module [FunctionDef ''helper'' [Import [Alias ''tests.helpers'' None]]]))
   \<and> tree_imports (Module [FunctionDef ''helper'' [Import [Alias ''tests.helpers'' None]]])
       = {''tests''}"
proof -
  have a: "parse_file example_fs [''tests'', ''test_util.py'']
     = Inr (Module [FunctionDef ''helper'' [Import [Alias ''tests.helpers'' None]]])"
    by (simp add: parse_file_def example_fs_def)
  have b: "tree_imports (Module [FunctionDef ''helper'' [Import [Alias ''tests.helpers'' None]]])
       = {''tests''}"
    by simp
  show ?thesis
    using extract_imports_all_depths [THEN conjunct1, rule_format, OF a] a b by blast
qed

section \<open>The test-file predicate\<close>

text \<open>
  Claim C7, as stated, fails.  The file name \<^verbatim>\<open>foo_test.txt\<close> ends with \<^verbatim>\<open>_test\<close> before
  its extension, so the predicate of the claim holds of it, but \<^verbatim>\<open>_is_test_file\<close> is
  false: the suffix it looks for is \<^verbatim>\<open>_test.py\<close>, extension included.
\<close>

theorem other_extension_not_test_file:
  "is_test_file_spec [''foo_test.txt''] \<and> \<not> is_test_file [''foo_test.txt'']"
  by (simp add: is_test_file_spec_def is_test_file_def startswith_def endswith_def
      path_stem_def path_name_def is_absolute_def rfind_def suffix_def Let_def)

text \<open>
  Claim C7, amended.  For every file path, the test-file predicate holds if and only if
  the file name starts with \<^verbatim>\<open>test_\<close> or ends with \<^verbatim>\<open>_test.py\<close>.  For a file name with the
  extension \<^verbatim>\<open>.py\<close> this is the predicate of the claim (starts with \<^verbatim>\<open>test_\<close>, or ends
  with \<^verbatim>\<open>_test\<close> before the extension), and for every file name it implies that
  predicate.
\<close>

theorem is_test_file_characterisation:
  "(is_test_file p \<longleftrightarrow>
      prefix ''test_'' (path_name p) \<or> suffix ''_test.py'' (path_name p))
   \<and> (path_name p = s @ ''.py'' \<and> s \<noteq> [] \<longrightarrow> (is_test_file p \<longleftrightarrow> is_test_file_spec p))
   \<and> (is_test_file p \<longrightarrow> is_test_file_spec p)"
  using is_test_file_iff [of p] is_test_file_py [of p s] is_test_file_imp_spec [of p] by blast

theorem is_test_file_characterisation_witness:
  "path_name [''tests'', ''foo_test.py''] = ''foo_test'' @ ''.py'' \<and> ''foo_test'' \<noteq> []
   \<and> is_test_file [''tests'', ''foo_test.py'']
   \<and> is_test_file_spec [''tests'', ''foo_test.py'']"
proof -
  have a: "path_name [''tests'', ''foo_test.py''] = ''foo_test'' @ ''.py'' \<and> ''foo_test'' \<noteq> []"
    by (simp add: path_name_def is_absolute_def)
  have b: "is_test_file [''tests'', ''foo_test.py'']"
    by (simp add: is_test_file_def path_name_def is_absolute_def startswith_def endswith_def
        suffix_def)
  show ?thesis
    using is_test_file_characterisation [of "[''tests'', ''foo_test.py'']" "''foo_test''"] a b
    by blast
qed

section \<open>Strategy B: naming convention\<close>



section \<open>Strategy C: import reachability\<close>

text \<open>
  Claim C9.  A file of the supplied test-file set whose extracted import set meets the
  set of root segments (the part before the first dot) of the module identifiers of the
  resolvable changed files is in every set that \<^verbatim>\<open>find_affected_tests\<close> returns.  Import
  extraction records only the first dotted segment of each imported name, so
  \<^verbatim>\<open>from pkg.sub import f\<close> contributes \<^verbatim>\<open>pkg\<close>.  A changed file counts as resolvable
  when \<^verbatim>\<open>get_module_path\<close> gives it a non-empty identifier.
\<close>

theorem import_reachability_selects:
  "(t \<in> set tests \<and> extract_imports fs t = Inr imports
      \<and> imports \<inter> changed_module_roots root changed \<noteq> {}
      \<and> find_affected_tests fs root changed (Some tests) = Inr S \<longrightarrow> t \<in> S)
   \<and> (r \<in> changed_module_roots root changed \<longleftrightarrow>
        (\<exists>c\<in>set changed. \<exists>m. get_module_path root c = Some m \<and> m \<noteq> []
           \<and> r = takeWhile (\<lambda>x. x \<noteq> CHR ''.'') m))
   \<and> (m' \<noteq> [] \<longrightarrow> visit (ImportFrom (Some m') names level) acc
                      = insert (takeWhile (\<lambda>x. x \<noteq> CHR ''.'') m') acc)
   \<and> visit (Import names') acc
       = acc \<union> set (map (\<lambda>a. takeWhile (\<lambda>x. x \<noteq> CHR ''.'') (alias_name a)) names')
   \<and> extract_imports
        [([''t.py''], File (Parsed (Module [ImportFrom (Some ''pkg.sub'') [Alias ''f'' None] 0])))]
        [''t.py''] = Inr {''pkg''}"
proof -
  have a: "t \<in> set tests \<and> extract_imports fs t = Inr imports
      \<and> imports \<inter> changed_module_roots root changed \<noteq> {}
      \<and> find_affected_tests fs root changed (Some tests) = Inr S \<longrightarrow> t \<in> S"
    using imports_select by blast
  have b: "m' \<noteq> [] \<longrightarrow> visit (ImportFrom (Some m') names level) acc
                      = insert (takeWhile (\<lambda>x. x \<noteq> CHR ''.'') m') acc"
    by (simp add: hd_str_split)
  have c: "visit (Import names') acc
       = acc \<union> set (map (\<lambda>a. takeWhile (\<lambda>x. x \<noteq> CHR ''.'') (alias_name a)) names')"
    by (simp add: fold_insert_map hd_str_split)
  have d: "extract_imports
        [([''t.py''], File (Parsed (Module [ImportFrom (Some ''pkg.sub'') [Alias ''f'' None] 0])))]
        [''t.py''] = Inr {''pkg''}"
    by (simp add: extract_imports_def parse_file_def)
  show ?thesis
    using a b c d changed_module_roots_iff [of r root changed] by blast
qed

theorem import_reachability_selects_witness:
  "[''tests'', ''pkg'', ''test_foo.py''] \<in> set [[''tests'', ''pkg'', ''test_foo.py'']]
   \<and> extract_imports example_fs [''tests'', ''pkg'', ''test_foo.py''] = Inr {''pkg''}
   \<and> {''pkg''} \<inter> changed_module_roots [] [[''src'', ''pkg'', ''bar.py'']] \<noteq> {}
   \<and> find_affected_tests example_fs [] [[''src'', ''pkg'', ''bar.py'']]
        (Some [[''tests'', ''pkg'', ''test_foo.py'']]) = Inr {[''tests'', ''pkg'', ''test_foo.py'']}
   \<and> get_module_path [] [''src'', ''pkg'', ''bar.py''] = Some ''pkg.bar''
   \<and> ''pkg'' \<in> changed_module_roots [] [[''src'', ''pkg'', ''bar.py'']]
   \<and> ''pkg.sub'' \<noteq> []
   \<and> visit (ImportFrom (Some ''pkg.sub'') [Alias ''f'' None] 0) {} = {''pkg''}"
proof -
  have a: "extract_imports example_fs [''tests'', ''pkg'', ''test_foo.py''] = Inr {''pkg''}"
    by (simp add: eval_defs)
  have b: "get_module_path [] [''src'', ''pkg'', ''bar.py''] = Some ''pkg.bar''"
    by (simp add: eval_defs)
  have c: "''pkg'' \<in> changed_module_roots [] [[''src'', ''pkg'', ''bar.py'']]"
    using import_reachability_selects [THEN conjunct2, THEN conjunct1,
        of "''pkg''" "[]" "[[''src'', ''pkg'', ''bar.py'']]"] b
    by simp
  have d: "find_affected_tests example_fs [] [[''src'', ''pkg'', ''bar.py'']]
        (Some [[''tests'', ''pkg'', ''test_foo.py'']]) = Inr {[''tests'', ''pkg'', ''test_foo.py'']}"
    by (simp add: eval_defs)
  have e: "visit (ImportFrom (Some ''pkg.sub'') [Alias ''f'' None] 0) {} = {''pkg''}"
    by simp
  show ?thesis
    using a b c d e by simp
qed

text \<open>
  Claim C10.  In Strategy C every changed file contributes the root of its module
  identifier, whether or not it is itself a test file: a test file of the test-file
  set that imports the root of any changed file's module identifier is in every set
  that \<^verbatim>\<open>find_affected_tests\<close> returns.  In particular a changed test file directly
  under \<^verbatim>\<open>tests\<close>, such as \<^verbatim>\<open>tests/test_foo.py\<close>, puts the root \<^verbatim>\<open>tests\<close> among the changed
  module roots, and every test file whose imports include the name \<^verbatim>\<open>tests\<close> is
  selected, even when no other file changed.
\<close>

theorem changed_test_files_feed_import_strategy:
  "(c \<in> set changed \<and> get_module_path root c = Some m \<and> m \<noteq> []
      \<and> t \<in> set tests \<and> extract_imports fs t = Inr imports
      \<and> hd (str_split CHR ''.'' m) \<in> imports
      \<and> find_affected_tests fs root changed (Some tests) = Inr S \<longrightarrow> t \<in> S)
   \<and> (root' @ [''tests'', name] \<in> set changed' \<and> is_test_file (root' @ [''tests'', name])
      \<and> t' \<in> set tests' \<and> extract_imports fs' t' = Inr imports'
      \<and> ''tests'' \<in> imports'
      \<and> find_affected_tests fs' root' changed' (Some tests') = Inr S' \<longrightarrow>
      ''tests'' \<in> changed_module_roots root' changed' \<and> t' \<in> S')"
proof -
  have one: "t \<in> S"
    if "c \<in> set changed" "get_module_path root c = Some m" "m \<noteq> []"
      "t \<in> set tests" "extract_imports fs t = Inr imps"
      "hd (str_split CHR ''.'' m) \<in> imps"
      "find_affected_tests fs root changed (Some tests) = Inr S"
    for c changed root m t tests fs imps S
  proof -
    have "hd (str_split CHR ''.'' m) \<in> changed_module_roots root changed"
      using that(1-3) by (auto simp: changed_module_roots_iff hd_str_split)
    then have "imps \<inter> changed_module_roots root changed \<noteq> {}"
      using that(6) by blast
    then show ?thesis
      using imports_select [OF that(4,5) _ that(7)] by blast
  qed
  have two: "''tests'' \<in> changed_module_roots root' changed' \<and> t' \<in> S'"
    if "root' @ [''tests'', name] \<in> set changed'"
      "t' \<in> set tests'" "extract_imports fs' t' = Inr imports'" "''tests'' \<in> imports'"
      "find_affected_tests fs' root' changed' (Some tests') = Inr S'"
  proof -
    let ?m = "''tests.'' @ str_replace ''.py'' '''' name"
    have m: "get_module_path root' (root' @ [''tests'', name]) = Some ?m" "?m \<noteq> []"
      using tests_dir_module by simp_all
    have r: "hd (str_split CHR ''.'' ?m) = ''tests''"
      by (simp add: hd_str_split)
    have "''tests'' \<in> changed_module_roots root' changed'"
      unfolding changed_module_roots_iff
    proof (intro bexI exI conjI)
      show "get_module_path root' (root' @ [''tests'', name]) = Some ?m"
        by (rule m(1))
      show "?m \<noteq> []"
        by simp
      show "''tests'' = takeWhile (\<lambda>x. x \<noteq> CHR ''.'') ?m"
        by simp
      show "root' @ [''tests'', name] \<in> set changed'"
        by (rule that(1))
    qed
    moreover have "t' \<in> S'"
      using one [OF that(1) m that(2,3) _ that(5)] r that(4) by simp
    ultimately show ?thesis by blast
  qed
  show ?thesis
    using one [of c changed root m t tests fs "imports" S] two by blast
qed

theorem changed_test_files_feed_import_strategy_witness:
  "[] @ [''tests'', ''test_foo.py''] \<in> set [[''tests'', ''test_foo.py'']]
   \<and> is_test_file ([] @ [''tests'', ''test_foo.py''])
   \<and> get_module_path [] [''tests'', ''test_foo.py''] = Some ''tests.test_foo''
   \<and> hd (str_split CHR ''.'' ''tests.test_foo'') = ''tests''
   \<and> [''tests'', ''test_util.py''] \<in> set [[''tests'', ''test_util.py'']]
   \<and> extract_imports example_fs [''tests'', ''test_util.py''] = Inr {''tests''}
   \<and> find_affected_tests example_fs [] [[''tests'', ''test_foo.py'']]
        (Some [[''tests'', ''test_util.py'']])
       = Inr {[''tests'', ''test_foo.py''], [''tests'', ''test_util.py'']}
   \<and> ''tests'' \<in> changed_module_roots [] [[''tests'', ''test_foo.py'']]
   \<and> [''tests'', ''test_util.py''] \<in> {[''tests'', ''test_foo.py''], [''tests'', ''test_util.py'']}"
proof -
  have a: "is_test_file ([] @ [''tests'', ''test_foo.py''])"
    by (simp add: eval_defs)
  have b: "get_module_path [] [''tests'', ''test_foo.py''] = Some ''tests.test_foo''"
    by (simp add: eval_defs)
  have c: "hd (str_split CHR ''.'' ''tests.test_foo'') = ''tests''"
    by simp
  have d: "extract_imports example_fs [''tests'', ''test_util.py''] = Inr {''tests''}"
    by (simp add: eval_defs)
  have e: "find_affected_tests example_fs [] [[''tests'', ''test_foo.py'']]
        (Some [[''tests'', ''test_util.py'']])
       = Inr {[''tests'', ''test_foo.py''], [''tests'', ''test_util.py'']}"
    by (simp add: eval_defs insert_commute)
  have f: "''tests'' \<in> changed_module_roots [] [[''tests'', ''test_foo.py'']]
      \<and> [''tests'', ''test_util.py''] \<in> {[''tests'', ''test_foo.py''], [''tests'', ''test_util.py'']}"
    using changed_test_files_feed_import_strategy [THEN conjunct2, rule_format,
        of "[]" "''test_foo.py''" "[[''tests'', ''test_foo.py'']]" "[''tests'', ''test_util.py'']"
           "[[''tests'', ''test_util.py'']]" example_fs "{''tests''}"
           "{[''tests'', ''test_foo.py''], [''tests'', ''test_util.py'']}"] a d e
    by simp
  show ?thesis
    using a b c d e f by simp
qed

end
